theory Spec2Isabelle
  imports Complex_Main
begin

section \<open>Symbolic expressions\<close>

text \<open>
  The style rules never compute numbers themselves: every call of \<^verbatim>\<open>bloom.add\<close>,
  \<^verbatim>\<open>bloom.sub\<close>, \<^verbatim>\<open>bloom.mul\<close>, \<^verbatim>\<open>bloom.div\<close> and \<^verbatim>\<open>bloom.sqrt\<close> builds a node of a
  computation graph.  The graph is a datatype; a numeric literal of the source is a
  \<open>Num\<close> leaf and a coordinate owned by the engine (an \<^verbatim>\<open>input\<close> or an optimised
  variable) is an \<open>Input\<close> leaf.
\<close>

datatype expr =
    Num real
  | Input nat
  | Add expr expr
  | Sub expr expr
  | Mul expr expr
  | Div expr expr
  | Sqrt expr

text \<open>
  Modelled from the spec: the evaluator of the external engine, which is not part of the
  repository.  The graph is read in exact real arithmetic.  A division by zero and the
  square root of a negative number have no finite real value (the engine's floating
  point yields an infinity or NaN there); this is the result \<open>None\<close>, and an operand
  without a value leaves the node without a value.
\<close>

fun evaluate :: "(nat \<Rightarrow> real) \<Rightarrow> expr \<Rightarrow> real option" where
  "evaluate env (Num k) = Some k"
| "evaluate env (Input i) = Some (env i)"
| "evaluate env (Add e f) =
     (case evaluate env e of None \<Rightarrow> None
      | Some u \<Rightarrow> (case evaluate env f of None \<Rightarrow> None | Some v \<Rightarrow> Some (u + v)))"
| "evaluate env (Sub e f) =
     (case evaluate env e of None \<Rightarrow> None
      | Some u \<Rightarrow> (case evaluate env f of None \<Rightarrow> None | Some v \<Rightarrow> Some (u - v)))"
| "evaluate env (Mul e f) =
     (case evaluate env e of None \<Rightarrow> None
      | Some u \<Rightarrow> (case evaluate env f of None \<Rightarrow> None | Some v \<Rightarrow> Some (u * v)))"
| "evaluate env (Div e f) =
     (case evaluate env e of None \<Rightarrow> None
      | Some u \<Rightarrow> (case evaluate env f of None \<Rightarrow> None
                   | Some v \<Rightarrow> if v = 0 then None else Some (u / v)))"
| "evaluate env (Sqrt e) =
     (case evaluate env e of None \<Rightarrow> None
      | Some u \<Rightarrow> if u < 0 then None else Some (sqrt u))"

text \<open>The assignment that gives every input the value zero.\<close>

definition zero_env :: "nat \<Rightarrow> real" where
  "zero_env i = 0"

text \<open>A JavaScript pair \<^verbatim>\<open>[x, y]\<close> of expressions has a value when both components have.\<close>

definition evaluate_vec :: "(nat \<Rightarrow> real) \<Rightarrow> expr \<times> expr \<Rightarrow> (real \<times> real) option" where
  "evaluate_vec env v =
     (case evaluate env (fst v) of None \<Rightarrow> None
      | Some x \<Rightarrow> (case evaluate env (snd v) of None \<Rightarrow> None | Some y \<Rightarrow> Some (x, y)))"

text \<open>
  Modelled from the spec: the vector operations \<^verbatim>\<open>bloom.ops.vdist\<close> and
  \<^verbatim>\<open>bloom.ops.vnormalize\<close> of the external library, on two-component vectors: the
  Euclidean distance of two points, and the vector divided by its Euclidean length.
\<close>

definition vdist :: "expr \<times> expr \<Rightarrow> expr \<times> expr \<Rightarrow> expr" where
  "vdist u v =
     Sqrt (Add (Mul (Sub (fst u) (fst v)) (Sub (fst u) (fst v)))
               (Mul (Sub (snd u) (snd v)) (Sub (snd u) (snd v))))"

definition vnorm :: "expr \<times> expr \<Rightarrow> expr" where
  "vnorm v = Sqrt (Add (Mul (fst v) (fst v)) (Mul (snd v) (snd v)))"

definition vnormalize :: "expr \<times> expr \<Rightarrow> expr \<times> expr" where
  "vnormalize v = (Div (fst v) (vnorm v), Div (snd v) (vnorm v))"

section \<open>The circumcircle rule of the geometry style\<close>

text \<open>
  \<^verbatim>\<open>applyStyle\<close> in \<^verbatim>\<open>diagrams/geometry/styles.ts\<close>, the rule for
  \<^verbatim>\<open>DrawCircumcircle(c, p, q, r)\<close>.  The three centres \<^verbatim>\<open>p.icon.center\<close>,
  \<^verbatim>\<open>q.icon.center\<close>, \<^verbatim>\<open>r.icon.center\<close> are destructured into \<open>(x1, y1)\<close>,
  \<open>(x2, y2)\<close>, \<open>(x3, y3)\<close>; the constants \<open>d\<close>, \<open>ux\<close>, \<open>uy\<close> are built node by
  node as the source nests the calls.
\<close>

definition circum_d :: "expr \<Rightarrow> expr \<Rightarrow> expr \<Rightarrow> expr \<Rightarrow> expr \<Rightarrow> expr \<Rightarrow> expr" where
  "circum_d x1 y1 x2 y2 x3 y3 =
     Mul (Num 2)
       (Add (Mul x1 (Sub y2 y3))
            (Add (Mul x2 (Sub y3 y1))
                 (Mul x3 (Sub y1 y2))))"

definition circum_ux :: "expr \<Rightarrow> expr \<Rightarrow> expr \<Rightarrow> expr \<Rightarrow> expr \<Rightarrow> expr \<Rightarrow> expr" where
  "circum_ux x1 y1 x2 y2 x3 y3 =
     Div
       (Add
          (Mul (Add (Mul x1 x1) (Mul y1 y1)) (Sub y2 y3))
          (Add
             (Mul (Add (Mul x2 x2) (Mul y2 y2)) (Sub y3 y1))
             (Mul (Add (Mul x3 x3) (Mul y3 y3)) (Sub y1 y2))))
       (circum_d x1 y1 x2 y2 x3 y3)"

definition circum_uy :: "expr \<Rightarrow> expr \<Rightarrow> expr \<Rightarrow> expr \<Rightarrow> expr \<Rightarrow> expr \<Rightarrow> expr" where
  "circum_uy x1 y1 x2 y2 x3 y3 =
     Div
       (Add
          (Mul (Add (Mul x1 x1) (Mul y1 y1)) (Sub x3 x2))
          (Add
             (Mul (Add (Mul x2 x2) (Mul y2 y2)) (Sub x1 x3))
             (Mul (Add (Mul x3 x3) (Mul y3 y3)) (Sub x2 x1))))
       (circum_d x1 y1 x2 y2 x3 y3)"

text \<open>
  The circle the rule assigns to \<^verbatim>\<open>c.circle\<close>: its radius \<^verbatim>\<open>r\<close> and its
  \<^verbatim>\<open>center\<close>.  The colour, stroke and canvas attributes are constants and are left out.
\<close>

record circle_shape =
  circ_r :: expr
  circ_center :: "expr \<times> expr"

definition drawCircumcircle :: "expr \<times> expr \<Rightarrow> expr \<times> expr \<Rightarrow> expr \<times> expr \<Rightarrow> circle_shape" where
  "drawCircumcircle p q r =
     (let x1 = fst p; y1 = snd p;
          x2 = fst q; y2 = snd q;
          x3 = fst r; y3 = snd r;
          ux = circum_ux x1 y1 x2 y2 x3 y3;
          uy = circum_uy x1 y1 x2 y2 x3 y3;
          circumcenter = (ux, uy);
          circumradius = vdist circumcenter p
      in \<lparr>circ_r = circumradius, circ_center = circumcenter\<rparr>)"

text \<open>
  The algorithm in the words of the specification, on real numbers: the determinant
  \<open>D\<close>, the two coordinates of the centre, and the radius as the distance from the
  centre to the first point.
\<close>

definition spec_D :: "real \<Rightarrow> real \<Rightarrow> real \<Rightarrow> real \<Rightarrow> real \<Rightarrow> real \<Rightarrow> real" where
  "spec_D x1 y1 x2 y2 x3 y3 = 2 * (x1 * (y2 - y3) + x2 * (y3 - y1) + x3 * (y1 - y2))"

definition spec_ux :: "real \<Rightarrow> real \<Rightarrow> real \<Rightarrow> real \<Rightarrow> real \<Rightarrow> real \<Rightarrow> real" where
  "spec_ux x1 y1 x2 y2 x3 y3 =
     ((x1\<^sup>2 + y1\<^sup>2) * (y2 - y3) + (x2\<^sup>2 + y2\<^sup>2) * (y3 - y1) + (x3\<^sup>2 + y3\<^sup>2) * (y1 - y2))
       / spec_D x1 y1 x2 y2 x3 y3"

definition spec_uy :: "real \<Rightarrow> real \<Rightarrow> real \<Rightarrow> real \<Rightarrow> real \<Rightarrow> real \<Rightarrow> real" where
  "spec_uy x1 y1 x2 y2 x3 y3 =
     ((x1\<^sup>2 + y1\<^sup>2) * (x3 - x2) + (x2\<^sup>2 + y2\<^sup>2) * (x1 - x3) + (x3\<^sup>2 + y3\<^sup>2) * (x2 - x1))
       / spec_D x1 y1 x2 y2 x3 y3"

definition distance :: "real \<times> real \<Rightarrow> real \<times> real \<Rightarrow> real" where
  "distance u v = sqrt ((fst u - fst v)\<^sup>2 + (snd u - snd v)\<^sup>2)"

definition collinear3 :: "real \<times> real \<Rightarrow> real \<times> real \<Rightarrow> real \<times> real \<Rightarrow> bool" where
  "collinear3 p q r \<longleftrightarrow>
     (fst q - fst p) * (snd r - snd p) = (fst r - fst p) * (snd q - snd p)"

section \<open>The eigenspace lines of the eigenvector diagram\<close>

text \<open>
  \<^verbatim>\<open>applyStyle\<close> of the eigenvector diagram destructures the two basis vectors,
  \<^verbatim>\<open>const [a, c] = substance.ihat.vec\<close> and \<^verbatim>\<open>const [b, d] = substance.jhat.vec\<close>,
  and assigns \<^verbatim>\<open>substance.el1.vec\<close> and \<^verbatim>\<open>substance.el2.vec\<close>.  The radicand is
  written out twice in the source, once per line.
\<close>

definition el1_vec :: "expr \<Rightarrow> expr \<Rightarrow> expr \<Rightarrow> expr \<Rightarrow> expr \<times> expr" where
  "el1_vec a b c d =
     vnormalize
       (Div
          (Mul (Num (- 1))
             (Add
                (Add (Mul (Num (- 1)) a) d)
                (Sqrt
                   (Add
                      (Add (Add (Mul a a) (Mul (Num 4) (Mul b c))) (Mul (Num (- 2)) (Mul a d)))
                      (Mul d d)))))
          (Mul (Num 2) c),
        Num 1)"

definition el2_vec :: "expr \<Rightarrow> expr \<Rightarrow> expr \<Rightarrow> expr \<Rightarrow> expr \<times> expr" where
  "el2_vec a b c d =
     vnormalize
       (Div
          (Mul (Num (- 1))
             (Add
                (Add (Mul (Num (- 1)) a) d)
                (Mul (Num (- 1))
                   (Sqrt
                      (Add
                         (Add (Add (Mul a a) (Mul (Num 4) (Mul b c))) (Mul (Num (- 2)) (Mul a d)))
                         (Mul d d))))))
          (Mul (Num 2) c),
        Num 1)"

text \<open>
  The formula in the words of the specification, on real numbers: the radicand
  \<open>(a - d)\<^sup>2 + 4bc\<close>, the normalisation of a vector, and the direction
  \<open>normalize [(d - a \<plusminus> \<surd>((a - d)\<^sup>2 + 4bc)) / (2c), 1]\<close> with the sign as a factor
  \<open>1\<close> or \<open>- 1\<close>.
\<close>

definition spec_disc :: "real \<Rightarrow> real \<Rightarrow> real \<Rightarrow> real \<Rightarrow> real" where
  "spec_disc a b c d = (a - d)\<^sup>2 + 4 * b * c"

definition normalize_vec :: "real \<times> real \<Rightarrow> real \<times> real" where
  "normalize_vec v = (fst v / sqrt ((fst v)\<^sup>2 + (snd v)\<^sup>2), snd v / sqrt ((fst v)\<^sup>2 + (snd v)\<^sup>2))"

definition spec_dir :: "real \<Rightarrow> real \<Rightarrow> real \<Rightarrow> real \<Rightarrow> real \<Rightarrow> real \<times> real" where
  "spec_dir s a b c d = normalize_vec ((d - a + s * sqrt (spec_disc a b c d)) / (2 * c), 1)"

text \<open>
  The direction the source builds: the numerator of the first component carries the
  factor \<open>- 1\<close> of \<^verbatim>\<open>bloom.mul(-1, ...)\<close>.
\<close>

definition code_dir :: "real \<Rightarrow> real \<Rightarrow> real \<Rightarrow> real \<Rightarrow> real \<Rightarrow> real \<times> real" where
  "code_dir s a b c d = normalize_vec (- (d - a + s * sqrt (spec_disc a b c d)) / (2 * c), 1)"

text \<open>
  The linear map of the diagram sends \<open>(1, 0)\<close> to \<open>(a, c)\<close> and \<open>(0, 1)\<close> to
  \<open>(b, d)\<close>: the source applies it to a point as
  \<^verbatim>\<open>mvmul(mtrans([ihat.vec, jhat.vec]), p.v1)\<close>.
\<close>

definition apply_map :: "real \<times> real \<Rightarrow> real \<times> real \<Rightarrow> real \<times> real \<Rightarrow> real \<times> real" where
  "apply_map ihat jhat v =
     (fst ihat * fst v + fst jhat * snd v, snd ihat * fst v + snd jhat * snd v)"

definition parallel :: "real \<times> real \<Rightarrow> real \<times> real \<Rightarrow> bool" where
  "parallel u v \<longleftrightarrow> fst u * snd v = snd u * fst v"

section \<open>The hook \<^verbatim>\<open>useDiagram\<close>\<close>

text \<open>
  The hook keeps one state cell, \<^verbatim>\<open>diagram\<close>, and one effect with the dependency
  array \<^verbatim>\<open>[buildFn]\<close>.  Every run of the effect owns a closure with its own flag
  \<^verbatim>\<open>cancelled\<close> and the promise returned by \<^verbatim>\<open>buildFn()\<close>; the runs are kept in the
  order in which they started, so the newest run is the last one.  A build function is
  known by its identity and a diagram and an error by an opaque number.
\<close>

record effect_run =
  cancelled :: bool
  fn :: nat
  settled :: bool
  built :: "nat option"

record hook =
  diagram :: "nat option"
  runs :: "effect_run list"
  deps :: "nat option"
  console :: "nat list"

definition mount_state :: hook where
  "mount_state = \<lparr>diagram = None, runs = [], deps = None, console = []\<rparr>"

text \<open>The cleanup returned by the effect, \<^verbatim>\<open>cancelled = true\<close>, acts on the newest run.\<close>

definition cleanup :: "hook \<Rightarrow> hook" where
  "cleanup h =
     (if runs h = [] then h
      else h\<lparr>runs := (runs h)[length (runs h) - 1 := (last (runs h))\<lparr>cancelled := True\<rparr>]\<rparr>)"

text \<open>
  The body of the effect: \<^verbatim>\<open>let cancelled = false\<close>, then \<^verbatim>\<open>setDiagram(null)\<close>, then the
  asynchronous function is started and calls \<^verbatim>\<open>buildFn()\<close>.
\<close>

definition effect :: "nat \<Rightarrow> hook \<Rightarrow> hook" where
  "effect f h =
     h\<lparr>diagram := None,
       runs := runs h @ [\<lparr>cancelled = False, fn = f, settled = False, built = None\<rparr>],
       deps := Some f\<rparr>"

text \<open>
  What can happen to a mounted or unmounted hook: the component renders with a build
  function, the component unmounts, or the promise of run \<open>i\<close> settles, resolved with
  a diagram or rejected with an error.  A promise settles once; a later settlement of
  the same run, and one of a run that does not exist, changes nothing.

  The rules of the UI framework enter the first two cases: the effect runs after the
  first render and after every render whose \<^verbatim>\<open>buildFn\<close> is not the one of the last
  run, the cleanup of the last run comes first, and the cleanup runs on unmount.  A
  render and the effect it causes are one step; the state cell after a step is what the
  next render of the hook returns.  The last two cases are the \<^verbatim>\<open>try\<close> block and
  the \<^verbatim>\<open>catch\<close> block of the asynchronous function.
\<close>

datatype event =
    Render nat
  | Unmount
  | Resolved nat nat
  | Rejected nat nat

fun step :: "hook \<Rightarrow> event \<Rightarrow> hook" where
  "step h (Render f) =
     (case deps h of
        None \<Rightarrow> effect f h
      | Some g \<Rightarrow> if g = f then h else effect f (cleanup h))"
| "step h Unmount =
     (case deps h of
        None \<Rightarrow> h
      | Some g \<Rightarrow> (cleanup h)\<lparr>deps := None\<rparr>)"
| "step h (Resolved i b) =
     (if i < length (runs h) \<and> \<not> settled (runs h ! i) then
        (let h' = h\<lparr>runs := (runs h)[i := (runs h ! i)\<lparr>settled := True, built := Some b\<rparr>]\<rparr>
         in if \<not> cancelled (runs h ! i) then h'\<lparr>diagram := Some b\<rparr> else h')
      else h)"
| "step h (Rejected i e) =
     (if i < length (runs h) \<and> \<not> settled (runs h ! i) then
        (let h' = h\<lparr>runs := (runs h)[i := (runs h ! i)\<lparr>settled := True\<rparr>],
                    console := console h @ [e]\<rparr>
         in if \<not> cancelled (runs h ! i) then h'\<lparr>diagram := None\<rparr> else h')
      else h)"

definition run_events :: "event list \<Rightarrow> hook" where
  "run_events evs = foldl step mount_state evs"

text \<open>
  A run is in flight while its promise has not settled; the current run is the newest
  one as long as the cleanup has not cancelled it.
\<close>

definition in_flight :: "hook \<Rightarrow> nat \<Rightarrow> bool" where
  "in_flight h i \<longleftrightarrow> i < length (runs h) \<and> \<not> settled (runs h ! i)"

definition superseded :: "hook \<Rightarrow> nat \<Rightarrow> bool" where
  "superseded h i \<longleftrightarrow> Suc i < length (runs h) \<or> (i < length (runs h) \<and> deps h = None)"

text \<open>
  What every run of events keeps true: every run but the newest is cancelled; after an
  unmount all runs are; while mounted the newest run belongs to the current build
  function and is not cancelled; a run that holds a diagram has settled; and a diagram
  in the state cell is the one the newest run resolved with.
\<close>

definition hook_inv :: "hook \<Rightarrow> bool" where
  "hook_inv h \<longleftrightarrow>
     (\<forall>i. Suc i < length (runs h) \<longrightarrow> cancelled (runs h ! i)) \<and>
     (deps h = None \<longrightarrow> (\<forall>i < length (runs h). cancelled (runs h ! i))) \<and>
     (\<forall>f. deps h = Some f \<longrightarrow>
        runs h \<noteq> [] \<and> fn (runs h ! (length (runs h) - 1)) = f \<and>
        \<not> cancelled (runs h ! (length (runs h) - 1))) \<and>
     (\<forall>i < length (runs h). built (runs h ! i) \<noteq> None \<longrightarrow> settled (runs h ! i)) \<and>
     (\<forall>b. diagram h = Some b \<longrightarrow> runs h \<noteq> [] \<and> built (runs h ! (length (runs h) - 1)) = Some b)"

section \<open>The instance graphs of the geometry and tangent diagrams\<close>

text \<open>
  Modelled from the spec: the bookkeeping of the external engine behind \<^verbatim>\<open>db.type()\<close>
  and \<^verbatim>\<open>db.predicate()\<close>.  Calling a type mints a fresh opaque handle, here the next
  number; calling a predicate records one fact over handles.  Attributes assigned to a
  handle (\<^verbatim>\<open>A.label = "A"\<close>) are kept as a list of assignments.
\<close>

datatype ty = Point | Edge | Circle

record substance =
  instances :: "ty list"
  Connects :: "(nat \<times> nat \<times> nat) list"
  DrawCircleWithRadius :: "(nat \<times> nat \<times> nat) list"
  DrawCircumcircle :: "(nat \<times> nat \<times> nat \<times> nat) list"
  Perpendicular :: "(nat \<times> nat) list"
  On :: "(nat \<times> nat) list"
  NotEqual :: "(nat \<times> nat) list"
  LabelPredicate :: "nat list"
  attrs :: "(nat \<times> string \<times> string) list"

definition empty_substance :: substance where
  "empty_substance =
     \<lparr>instances = [], Connects = [], DrawCircleWithRadius = [], DrawCircumcircle = [],
      Perpendicular = [], On = [], NotEqual = [], LabelPredicate = [], attrs = []\<rparr>"

definition mint :: "ty \<Rightarrow> substance \<Rightarrow> nat \<times> substance" where
  "mint t s = (length (instances s), s\<lparr>instances := instances s @ [t]\<rparr>)"

definition assign :: "nat \<Rightarrow> string \<Rightarrow> string \<Rightarrow> substance \<Rightarrow> substance" where
  "assign obj key val s = s\<lparr>attrs := attrs s @ [(obj, key, val)]\<rparr>"

text \<open>The helpers of \<^verbatim>\<open>defineDomain\<close>.\<close>

definition Segment :: "nat \<Rightarrow> nat \<Rightarrow> substance \<Rightarrow> nat \<times> substance" where
  "Segment pointA pointB s =
     (let (edge, s) = mint Edge s
      in (edge, s\<lparr>Connects := Connects s @ [(edge, pointA, pointB)]\<rparr>))"

definition CircleRadius :: "nat \<Rightarrow> nat \<Rightarrow> substance \<Rightarrow> nat \<times> substance" where
  "CircleRadius center radius s =
     (let (circle, s) = mint Circle s
      in (circle, s\<lparr>DrawCircleWithRadius := DrawCircleWithRadius s @ [(circle, center, radius)]\<rparr>))"

definition Circumcircle :: "nat \<Rightarrow> nat \<Rightarrow> nat \<Rightarrow> substance \<Rightarrow> nat \<times> substance" where
  "Circumcircle pointA pointB pointC s =
     (let (circle, s) = mint Circle s
      in (circle, s\<lparr>DrawCircumcircle := DrawCircumcircle s @ [(circle, pointA, pointB, pointC)]\<rparr>))"

definition Label :: "nat \<Rightarrow> string \<Rightarrow> substance \<Rightarrow> substance" where
  "Label obj l s = (let s = assign obj ''label'' l s in s\<lparr>LabelPredicate := LabelPredicate s @ [obj]\<rparr>)"

definition assert_Perpendicular :: "nat \<Rightarrow> nat \<Rightarrow> substance \<Rightarrow> substance" where
  "assert_Perpendicular s1 s2 s = s\<lparr>Perpendicular := Perpendicular s @ [(s1, s2)]\<rparr>"

definition assert_On :: "nat \<Rightarrow> nat \<Rightarrow> substance \<Rightarrow> substance" where
  "assert_On p carrier s = s\<lparr>On := On s @ [(p, carrier)]\<rparr>"

text \<open>
  The predicate \<^verbatim>\<open>NotEqual\<close> of the tangent diagram.  The domain that declares it
  is not among the sources; it is taken as one more \<^verbatim>\<open>db.predicate()\<close>, whose call
  records one fact.
\<close>

definition assert_NotEqual :: "nat \<Rightarrow> nat \<Rightarrow> substance \<Rightarrow> substance" where
  "assert_NotEqual p q s = s\<lparr>NotEqual := NotEqual s @ [(p, q)]\<rparr>"

text \<open>
  \<^verbatim>\<open>defineSubstance\<close> of \<^verbatim>\<open>diagrams/geometry/substance.ts\<close>, statement by statement.
  The result is the object the source returns, as a table from its keys to handles,
  with the instance graph it leaves behind.
\<close>

definition defineSubstance :: "(string \<times> nat) list \<times> substance" where
  "defineSubstance =
     (let s = empty_substance;
          (A, s) = mint Point s;
          (B, s) = mint Point s;
          (C, s) = mint Point s;
          (D, s) = mint Point s;
          (E, s) = mint Point s;
          (F, s) = mint Point s;
          (G, s) = mint Point s;
          (c, s) = CircleRadius G F s;
          (cc, s) = Circumcircle A B C s;
          (AB, s) = Segment A B s;
          (BC, s) = Segment B C s;
          (AC, s) = Segment A C s;
          s = Label AB ''a'' s;
          s = Label BC ''b'' s;
          s = Label AC ''c'' s;
          (GF, s) = Segment G F s;
          s = Label GF ''r'' s;
          (AD, s) = Segment A D s;
          s = assert_Perpendicular BC AD s;
          (BE, s) = Segment B E s;
          s = assert_Perpendicular AC BE s;
          (CF, s) = Segment C F s;
          s = assert_Perpendicular AB CF s;
          s = assert_On D BC s;
          s = assert_On E AC s;
          s = assert_On F AB s;
          s = assert_On G AD s;
          s = assert_On G BE s;
          s = assert_On G CF s;
          s = assign A ''label'' ''A'' s;
          s = assign B ''label'' ''B'' s;
          s = assign C ''label'' ''C'' s;
          s = assign D ''label'' ''D'' s;
          s = assign E ''label'' ''E'' s;
          s = assign F ''label'' ''F'' s;
          s = assign G ''label'' ''G'' s
      in ([(''A'', A), (''B'', B), (''C'', C), (''AB'', AB), (''BC'', BC), (''AC'', AC),
           (''AD'', AD), (''BE'', BE), (''CF'', CF), (''D'', D), (''E'', E), (''F'', F),
           (''G'', G)], s))"

text \<open>
  \<^verbatim>\<open>defineSubstance\<close> of the self-contained geometry diagram
  (\<^verbatim>\<open>createGeometryDiagram\<close>): no circles and no labels, and the attribute is
  \<^verbatim>\<open>name\<close>.
\<close>

definition defineSubstance_standalone :: "(string \<times> nat) list \<times> substance" where
  "defineSubstance_standalone =
     (let s = empty_substance;
          (A, s) = mint Point s;
          (B, s) = mint Point s;
          (C, s) = mint Point s;
          (D, s) = mint Point s;
          (E, s) = mint Point s;
          (F, s) = mint Point s;
          (G, s) = mint Point s;
          (AB, s) = Segment A B s;
          (BC, s) = Segment B C s;
          (AC, s) = Segment A C s;
          (AD, s) = Segment A D s;
          s = assert_Perpendicular BC AD s;
          (BE, s) = Segment B E s;
          s = assert_Perpendicular AC BE s;
          (CF, s) = Segment C F s;
          s = assert_Perpendicular AB CF s;
          s = assert_On D BC s;
          s = assert_On E AC s;
          s = assert_On F AB s;
          s = assert_On G AD s;
          s = assert_On G BE s;
          s = assert_On G CF s;
          s = assign A ''name'' ''A'' s;
          s = assign B ''name'' ''B'' s;
          s = assign C ''name'' ''C'' s;
          s = assign D ''name'' ''D'' s;
          s = assign E ''name'' ''E'' s;
          s = assign F ''name'' ''F'' s;
          s = assign G ''name'' ''G'' s
      in ([(''A'', A), (''B'', B), (''C'', C), (''AB'', AB), (''BC'', BC), (''AC'', AC),
           (''AD'', AD), (''BE'', BE), (''CF'', CF), (''D'', D), (''E'', E), (''F'', F),
           (''G'', G)], s))"

text \<open>
  \<^verbatim>\<open>defineSubstance\<close> of the tangent diagram: the centre \<open>O\<close> (written \<open>Oc\<close>
  below, since \<open>O\<close> is the composition of relations), the point \<open>R\<close>
  that fixes the radius, the outer point \<open>C\<close>, the two points of tangency \<open>A\<close> and
  \<open>B\<close>, the circle, the tangents and the radii.  Here the carrier of every
  \<^verbatim>\<open>On\<close> fact is the circle.
\<close>

definition defineSubstance_tangent :: "(string \<times> nat) list \<times> substance" where
  "defineSubstance_tangent =
     (let s = empty_substance;
          (Oc, s) = mint Point s;
          (R, s) = mint Point s;
          (C, s) = mint Point s;
          (A, s) = mint Point s;
          (B, s) = mint Point s;
          s = assert_NotEqual A B s;
          (circle, s) = CircleRadius Oc R s;
          (CA, s) = Segment C A s;
          (CB, s) = Segment C B s;
          (OA, s) = Segment Oc A s;
          (OB, s) = Segment Oc B s;
          (OR, s) = Segment Oc R s;
          s = assert_On A circle s;
          s = assert_On B circle s;
          s = assert_On R circle s;
          s = assert_Perpendicular CA OA s;
          s = assert_Perpendicular CB OB s;
          s = assign Oc ''label'' ''O'' s;
          s = assign C ''label'' ''C'' s;
          s = assign A ''label'' ''A'' s;
          s = assign B ''label'' ''B'' s;
          s = assign R ''label'' ''R'' s;
          s = Label CA [] s;
          s = Label CB [] s;
          s = Label OA ''r'' s;
          s = Label OB ''r'' s;
          s = Label OR ''r'' s
      in ([(''O'', Oc), (''C'', C), (''A'', A), (''B'', B), (''R'', R),
           (''CA'', CA), (''CB'', CB), (''OA'', OA), (''OB'', OB), (''OR'', OR),
           (''circle'', circle)], s))"

text \<open>
  The arrow diagram, the circle diagram and the eigenvector diagram declare no
  \<^verbatim>\<open>On\<close> predicate, so the three graphs above are all the graphs with \<^verbatim>\<open>On\<close>
  facts.
\<close>

text \<open>The number of \<^verbatim>\<open>On\<close> facts that place the point \<open>p\<close> on a carrier.\<close>

definition on_count :: "substance \<Rightarrow> nat \<Rightarrow> nat" where
  "on_count s p = length (filter (\<lambda>entry. fst entry = p) (On s))"

text \<open>
  An \<^verbatim>\<open>On\<close> fact is well formed when it relates an instance of \<^verbatim>\<open>Point\<close> to one
  carrier shape, an instance of \<^verbatim>\<open>Edge\<close> or of \<^verbatim>\<open>Circle\<close>, both minted in this
  graph.
\<close>

definition on_fact_ok :: "substance \<Rightarrow> nat \<times> nat \<Rightarrow> bool" where
  "on_fact_ok s entry \<longleftrightarrow>
     fst entry < length (instances s) \<and> snd entry < length (instances s) \<and>
     instances s ! fst entry = Point \<and>
     (instances s ! snd entry = Edge \<or> instances s ! snd entry = Circle)"

section \<open>Properties of the circumcircle rule\<close>

lemma evaluate_circum_d:
  assumes "evaluate env x1 = Some a1" "evaluate env y1 = Some b1"
      and "evaluate env x2 = Some a2" "evaluate env y2 = Some b2"
      and "evaluate env x3 = Some a3" "evaluate env y3 = Some b3"
  shows "evaluate env (circum_d x1 y1 x2 y2 x3 y3) = Some (spec_D a1 b1 a2 b2 a3 b3)"
  using assms by (simp add: circum_d_def spec_D_def)

lemma evaluate_circum_ux:
  assumes "evaluate env x1 = Some a1" "evaluate env y1 = Some b1"
      and "evaluate env x2 = Some a2" "evaluate env y2 = Some b2"
      and "evaluate env x3 = Some a3" "evaluate env y3 = Some b3"
  shows "evaluate env (circum_ux x1 y1 x2 y2 x3 y3) =
           (if spec_D a1 b1 a2 b2 a3 b3 = 0 then None
            else Some (spec_ux a1 b1 a2 b2 a3 b3))"
  using assms evaluate_circum_d [OF assms]
  by (simp add: circum_ux_def spec_ux_def power2_eq_square)

lemma evaluate_circum_uy:
  assumes "evaluate env x1 = Some a1" "evaluate env y1 = Some b1"
      and "evaluate env x2 = Some a2" "evaluate env y2 = Some b2"
      and "evaluate env x3 = Some a3" "evaluate env y3 = Some b3"
  shows "evaluate env (circum_uy x1 y1 x2 y2 x3 y3) =
           (if spec_D a1 b1 a2 b2 a3 b3 = 0 then None
            else Some (spec_uy a1 b1 a2 b2 a3 b3))"
  using assms evaluate_circum_d [OF assms]
  by (simp add: circum_uy_def spec_uy_def power2_eq_square)

lemma evaluate_vdist:
  assumes "evaluate env (fst u) = Some a" "evaluate env (snd u) = Some b"
      and "evaluate env (fst v) = Some a'" "evaluate env (snd v) = Some b'"
  shows "evaluate env (vdist u v) = Some (distance (a, b) (a', b'))"
  using assms by (simp add: vdist_def distance_def power2_eq_square not_less [symmetric] not_sum_squares_lt_zero)

lemma equidistant_12:
  assumes "spec_D a1 b1 a2 b2 a3 b3 \<noteq> 0"
  shows "(spec_ux a1 b1 a2 b2 a3 b3 - a1)\<^sup>2 + (spec_uy a1 b1 a2 b2 a3 b3 - b1)\<^sup>2
       = (spec_ux a1 b1 a2 b2 a3 b3 - a2)\<^sup>2 + (spec_uy a1 b1 a2 b2 a3 b3 - b2)\<^sup>2"
proof -
  define D where "D = spec_D a1 b1 a2 b2 a3 b3"
  define Nx where "Nx = (a1\<^sup>2 + b1\<^sup>2) * (b2 - b3) + (a2\<^sup>2 + b2\<^sup>2) * (b3 - b1) + (a3\<^sup>2 + b3\<^sup>2) * (b1 - b2)"
  define Ny where "Ny = (a1\<^sup>2 + b1\<^sup>2) * (a3 - a2) + (a2\<^sup>2 + b2\<^sup>2) * (a1 - a3) + (a3\<^sup>2 + b3\<^sup>2) * (a2 - a1)"
  have D: "D \<noteq> 0" using assms by (simp add: D_def)
  have key: "2 * Nx * (a2 - a1) + 2 * Ny * (b2 - b1) = D * (a2\<^sup>2 + b2\<^sup>2 - a1\<^sup>2 - b1\<^sup>2)"
    unfolding D_def Nx_def Ny_def spec_D_def by algebra
  have ux: "spec_ux a1 b1 a2 b2 a3 b3 = Nx / D" by (simp add: spec_ux_def Nx_def D_def)
  have uy: "spec_uy a1 b1 a2 b2 a3 b3 = Ny / D" by (simp add: spec_uy_def Ny_def D_def)
  have "(Nx / D - a1)\<^sup>2 + (Ny / D - b1)\<^sup>2 - ((Nx / D - a2)\<^sup>2 + (Ny / D - b2)\<^sup>2)
      = (2 * Nx * (a2 - a1) + 2 * Ny * (b2 - b1)) / D - (a2\<^sup>2 + b2\<^sup>2 - a1\<^sup>2 - b1\<^sup>2)"
    using D by (simp add: power2_eq_square field_simps)
  also have "\<dots> = 0" using D by (simp add: key)
  finally show ?thesis by (simp add: ux uy)
qed


lemma equidistant_13:
  assumes "spec_D a1 b1 a2 b2 a3 b3 \<noteq> 0"
  shows "(spec_ux a1 b1 a2 b2 a3 b3 - a1)\<^sup>2 + (spec_uy a1 b1 a2 b2 a3 b3 - b1)\<^sup>2
       = (spec_ux a1 b1 a2 b2 a3 b3 - a3)\<^sup>2 + (spec_uy a1 b1 a2 b2 a3 b3 - b3)\<^sup>2"
proof -
  define D where "D = spec_D a1 b1 a2 b2 a3 b3"
  define Nx where "Nx = (a1\<^sup>2 + b1\<^sup>2) * (b2 - b3) + (a2\<^sup>2 + b2\<^sup>2) * (b3 - b1) + (a3\<^sup>2 + b3\<^sup>2) * (b1 - b2)"
  define Ny where "Ny = (a1\<^sup>2 + b1\<^sup>2) * (a3 - a2) + (a2\<^sup>2 + b2\<^sup>2) * (a1 - a3) + (a3\<^sup>2 + b3\<^sup>2) * (a2 - a1)"
  have D: "D \<noteq> 0" using assms by (simp add: D_def)
  have key: "2 * Nx * (a3 - a1) + 2 * Ny * (b3 - b1) = D * (a3\<^sup>2 + b3\<^sup>2 - a1\<^sup>2 - b1\<^sup>2)"
    unfolding D_def Nx_def Ny_def spec_D_def by algebra
  have ux: "spec_ux a1 b1 a2 b2 a3 b3 = Nx / D" by (simp add: spec_ux_def Nx_def D_def)
  have uy: "spec_uy a1 b1 a2 b2 a3 b3 = Ny / D" by (simp add: spec_uy_def Ny_def D_def)
  have "(Nx / D - a1)\<^sup>2 + (Ny / D - b1)\<^sup>2 - ((Nx / D - a3)\<^sup>2 + (Ny / D - b3)\<^sup>2)
      = (2 * Nx * (a3 - a1) + 2 * Ny * (b3 - b1)) / D - (a3\<^sup>2 + b3\<^sup>2 - a1\<^sup>2 - b1\<^sup>2)"
    using D by (simp add: power2_eq_square field_simps)
  also have "\<dots> = 0" using D by (simp add: key)
  finally show ?thesis by (simp add: ux uy)
qed

lemma spec_D_collinear:
  "spec_D a1 b1 a2 b2 a3 b3 = 0 \<longleftrightarrow> collinear3 (a1, b1) (a2, b2) (a3, b3)"
proof -
  have "spec_D a1 b1 a2 b2 a3 b3 = 2 * ((a2 - a1) * (b3 - b1) - (a3 - a1) * (b2 - b1))"
    by (simp add: spec_D_def algebra_simps)
  then show ?thesis by (simp add: collinear3_def)
qed

lemma evaluate_center:
  assumes "evaluate env x1 = Some a1" "evaluate env y1 = Some b1"
      and "evaluate env x2 = Some a2" "evaluate env y2 = Some b2"
      and "evaluate env x3 = Some a3" "evaluate env y3 = Some b3"
  shows "evaluate_vec env (circ_center (drawCircumcircle (x1, y1) (x2, y2) (x3, y3))) =
           (if spec_D a1 b1 a2 b2 a3 b3 = 0 then None
            else Some (spec_ux a1 b1 a2 b2 a3 b3, spec_uy a1 b1 a2 b2 a3 b3))"
  using evaluate_circum_ux [OF assms] evaluate_circum_uy [OF assms]
  by (simp add: drawCircumcircle_def evaluate_vec_def Let_def)

lemma evaluate_radius:
  assumes "evaluate env x1 = Some a1" "evaluate env y1 = Some b1"
      and "evaluate env x2 = Some a2" "evaluate env y2 = Some b2"
      and "evaluate env x3 = Some a3" "evaluate env y3 = Some b3"
  shows "evaluate env (circ_r (drawCircumcircle (x1, y1) (x2, y2) (x3, y3))) =
           (if spec_D a1 b1 a2 b2 a3 b3 = 0 then None
            else Some (distance (spec_ux a1 b1 a2 b2 a3 b3, spec_uy a1 b1 a2 b2 a3 b3) (a1, b1)))"
proof (cases "spec_D a1 b1 a2 b2 a3 b3 = 0")
  case True
  then show ?thesis
    using evaluate_circum_ux [OF assms]
    by (simp add: drawCircumcircle_def Let_def vdist_def)
next
  case False
  then show ?thesis
    using evaluate_circum_ux [OF assms] evaluate_circum_uy [OF assms] assms(1,2)
      evaluate_vdist [of env "(circum_ux x1 y1 x2 y2 x3 y3, circum_uy x1 y1 x2 y2 x3 y3)"
        "spec_ux a1 b1 a2 b2 a3 b3" "spec_uy a1 b1 a2 b2 a3 b3" "(x1, y1)" a1 b1]
    by (simp add: drawCircumcircle_def Let_def)
qed

text \<open>
  Claim C1.  For every triple of coordinate expressions that have values, with a
  determinant \<open>D\<close> different from zero, the nodes the rule builds evaluate to the
  formulas of the algorithm: \<open>d\<close> to \<open>D\<close>, the two components of the centre to
  \<open>ux\<close> and \<open>uy\<close>, and the radius to the distance from \<open>(ux, uy)\<close> to the
  first point.
\<close>

theorem circumcircle_rule_formula:
  assumes "evaluate env x1 = Some a1" "evaluate env y1 = Some b1"
      and "evaluate env x2 = Some a2" "evaluate env y2 = Some b2"
      and "evaluate env x3 = Some a3" "evaluate env y3 = Some b3"
      and "spec_D a1 b1 a2 b2 a3 b3 \<noteq> 0"
  shows "evaluate env (circum_d x1 y1 x2 y2 x3 y3) = Some (spec_D a1 b1 a2 b2 a3 b3) \<and>
         evaluate env (circum_ux x1 y1 x2 y2 x3 y3) = Some (spec_ux a1 b1 a2 b2 a3 b3) \<and>
         evaluate env (circum_uy x1 y1 x2 y2 x3 y3) = Some (spec_uy a1 b1 a2 b2 a3 b3) \<and>
         circ_center (drawCircumcircle (x1, y1) (x2, y2) (x3, y3)) =
           (circum_ux x1 y1 x2 y2 x3 y3, circum_uy x1 y1 x2 y2 x3 y3) \<and>
         evaluate env (circ_r (drawCircumcircle (x1, y1) (x2, y2) (x3, y3))) =
           Some (distance (spec_ux a1 b1 a2 b2 a3 b3, spec_uy a1 b1 a2 b2 a3 b3) (a1, b1))"
  using evaluate_circum_d [OF assms(1-6)] evaluate_circum_ux [OF assms(1-6)]
    evaluate_circum_uy [OF assms(1-6)] evaluate_radius [OF assms(1-6)] assms(7)
  by (simp add: drawCircumcircle_def Let_def)

lemma sqrt_25_4: "sqrt (25 / 4) = 5 / 2"
  by (rule real_sqrt_unique) (simp_all add: power2_eq_square)

theorem circumcircle_rule_formula_witness:
  "evaluate zero_env (circum_d (Num 0) (Num 0) (Num 4) (Num 0) (Num 0) (Num 3)) = Some 24 \<and>
   evaluate zero_env (circum_ux (Num 0) (Num 0) (Num 4) (Num 0) (Num 0) (Num 3)) = Some 2 \<and>
   evaluate zero_env (circum_uy (Num 0) (Num 0) (Num 4) (Num 0) (Num 0) (Num 3)) = Some (3 / 2) \<and>
   evaluate zero_env (circ_r (drawCircumcircle (Num 0, Num 0) (Num 4, Num 0) (Num 0, Num 3)))
     = Some (5 / 2)"
  using circumcircle_rule_formula [of zero_env "Num 0" 0 "Num 0" 0 "Num 4" 4 "Num 0" 0 "Num 0" 0 "Num 3" 3]
  by (simp add: spec_D_def spec_ux_def spec_uy_def distance_def power2_eq_square sqrt_25_4)

text \<open>
  Claim C2.  For three points that are not collinear the centre built by the rule has
  a value, and this point is at the same distance from all three points, in exact real
  arithmetic.
\<close>

theorem circumcenter_equidistant:
  assumes "evaluate env x1 = Some a1" "evaluate env y1 = Some b1"
      and "evaluate env x2 = Some a2" "evaluate env y2 = Some b2"
      and "evaluate env x3 = Some a3" "evaluate env y3 = Some b3"
      and "\<not> collinear3 (a1, b1) (a2, b2) (a3, b3)"
  shows "\<exists>u. evaluate_vec env (circ_center (drawCircumcircle (x1, y1) (x2, y2) (x3, y3))) = Some u \<and>
             distance u (a1, b1) = distance u (a2, b2) \<and>
             distance u (a1, b1) = distance u (a3, b3)"
proof -
  have D: "spec_D a1 b1 a2 b2 a3 b3 \<noteq> 0"
    using assms(7) by (simp add: spec_D_collinear)
  show ?thesis
    using evaluate_center [OF assms(1-6)] D equidistant_12 [OF D] equidistant_13 [OF D]
    by (simp add: distance_def)
qed

theorem circumcenter_equidistant_witness:
  "\<not> collinear3 (0, 0) (4, 0) (0, 3) \<and>
   (\<exists>u. evaluate_vec zero_env (circ_center (drawCircumcircle (Num 0, Num 0) (Num 4, Num 0) (Num 0, Num 3))) = Some u \<and>
        distance u (0, 0) = distance u (4, 0) \<and> distance u (0, 0) = distance u (0, 3))"
  using circumcenter_equidistant [of zero_env "Num 0" 0 "Num 0" 0 "Num 4" 4 "Num 0" 0 "Num 0" 0 "Num 3" 3]
  by (simp add: collinear3_def)

text \<open>
  Claim C5.  For every collinear triple of points the node \<open>d\<close> evaluates to zero,
  and the divisions that produce \<open>ux\<close> and \<open>uy\<close> are taken all the same: neither
  coordinate of the centre has a value, and neither has the radius.
\<close>

theorem circumcircle_collinear_undefined:
  assumes "evaluate env x1 = Some a1" "evaluate env y1 = Some b1"
      and "evaluate env x2 = Some a2" "evaluate env y2 = Some b2"
      and "evaluate env x3 = Some a3" "evaluate env y3 = Some b3"
      and "collinear3 (a1, b1) (a2, b2) (a3, b3)"
  shows "evaluate env (circum_d x1 y1 x2 y2 x3 y3) = Some 0 \<and>
         evaluate env (circum_ux x1 y1 x2 y2 x3 y3) = None \<and>
         evaluate env (circum_uy x1 y1 x2 y2 x3 y3) = None \<and>
         evaluate_vec env (circ_center (drawCircumcircle (x1, y1) (x2, y2) (x3, y3))) = None \<and>
         evaluate env (circ_r (drawCircumcircle (x1, y1) (x2, y2) (x3, y3))) = None"
proof -
  have D: "spec_D a1 b1 a2 b2 a3 b3 = 0"
    using assms(7) by (simp add: spec_D_collinear)
  show ?thesis
    using evaluate_circum_d [OF assms(1-6)] evaluate_circum_ux [OF assms(1-6)]
      evaluate_circum_uy [OF assms(1-6)] evaluate_center [OF assms(1-6)]
      evaluate_radius [OF assms(1-6)] D
    by simp
qed

theorem circumcircle_collinear_undefined_witness:
  "collinear3 (0, 0) (1, 1) (2, 2) \<and>
   evaluate zero_env (circum_d (Num 0) (Num 0) (Num 1) (Num 1) (Num 2) (Num 2)) = Some 0 \<and>
   evaluate zero_env (circum_ux (Num 0) (Num 0) (Num 1) (Num 1) (Num 2) (Num 2)) = None \<and>
   evaluate zero_env (circum_uy (Num 0) (Num 0) (Num 1) (Num 1) (Num 2) (Num 2)) = None \<and>
   evaluate zero_env (circ_r (drawCircumcircle (Num 0, Num 0) (Num 1, Num 1) (Num 2, Num 2))) = None"
  using circumcircle_collinear_undefined [of zero_env "Num 0" 0 "Num 0" 0 "Num 1" 1 "Num 1" 1 "Num 2" 2 "Num 2" 2]
  by (simp add: collinear3_def)

section \<open>Properties of the eigenspace lines\<close>

lemma evaluate_radicand:
  assumes "evaluate env a = Some va" "evaluate env b = Some vb"
      and "evaluate env c = Some vc" "evaluate env d = Some vd"
  shows "evaluate env
           (Add (Add (Add (Mul a a) (Mul (Num 4) (Mul b c))) (Mul (Num (- 2)) (Mul a d))) (Mul d d))
         = Some (spec_disc va vb vc vd)"
  using assms by (simp add: spec_disc_def power2_eq_square algebra_simps)

lemma norm_pos: "0 < sqrt (t\<^sup>2 + 1)" for t :: real
  by (simp add: add_nonneg_pos)

lemma evaluate_vnormalize_one:
  assumes "evaluate env x = Some t"
  shows "evaluate_vec env (vnormalize (x, Num 1)) = Some (normalize_vec (t, 1))"
proof -
  have "\<not> t * t + 1 < 0" using norm_pos [of t] by (simp add: power2_eq_square not_less add_nonneg_nonneg)
  moreover have "sqrt (t * t + 1) \<noteq> 0" using norm_pos [of t] by (simp add: power2_eq_square)
  ultimately show ?thesis
    using assms by (simp add: evaluate_vec_def vnormalize_def vnorm_def normalize_vec_def power2_eq_square)
qed

lemma evaluate_vnormalize_none:
  assumes "evaluate env x = None"
  shows "evaluate_vec env (vnormalize (x, y)) = None"
  using assms by (simp add: evaluate_vec_def vnormalize_def)

lemma evaluate_el1:
  assumes "evaluate env a = Some va" "evaluate env b = Some vb"
      and "evaluate env c = Some vc" "evaluate env d = Some vd"
      and "vc \<noteq> 0" "0 \<le> spec_disc va vb vc vd"
  shows "evaluate_vec env (el1_vec a b c d) = Some (code_dir 1 va vb vc vd)"
proof -
  have "evaluate env (Div
          (Mul (Num (- 1))
             (Add
                (Add (Mul (Num (- 1)) a) d)
                (Sqrt
                   (Add
                      (Add (Add (Mul a a) (Mul (Num 4) (Mul b c))) (Mul (Num (- 2)) (Mul a d)))
                      (Mul d d)))))
          (Mul (Num 2) c)) = Some (- (vd - va + 1 * sqrt (spec_disc va vb vc vd)) / (2 * vc))"
    using assms evaluate_radicand [OF assms(1-4)] by (simp add: not_less [symmetric])
  then show ?thesis
    unfolding el1_vec_def code_dir_def by (rule evaluate_vnormalize_one)
qed

lemma evaluate_el2:
  assumes "evaluate env a = Some va" "evaluate env b = Some vb"
      and "evaluate env c = Some vc" "evaluate env d = Some vd"
      and "vc \<noteq> 0" "0 \<le> spec_disc va vb vc vd"
  shows "evaluate_vec env (el2_vec a b c d) = Some (code_dir (- 1) va vb vc vd)"
proof -
  have "evaluate env (Div
          (Mul (Num (- 1))
             (Add
                (Add (Mul (Num (- 1)) a) d)
                (Mul (Num (- 1))
                (Sqrt
                   (Add
                      (Add (Add (Mul a a) (Mul (Num 4) (Mul b c))) (Mul (Num (- 2)) (Mul a d)))
                      (Mul d d))))))
          (Mul (Num 2) c)) = Some (- (vd - va + (- 1) * sqrt (spec_disc va vb vc vd)) / (2 * vc))"
    using assms evaluate_radicand [OF assms(1-4)] by (simp add: not_less [symmetric])
  then show ?thesis
    unfolding el2_vec_def code_dir_def by (rule evaluate_vnormalize_one)
qed

lemma code_dir_eigen:
  assumes "c \<noteq> 0" "0 \<le> spec_disc a b c d" "s = 1 \<or> s = - 1"
  shows "apply_map (a, c) (b, d) (code_dir s a b c d)
       = (((a + d - s * sqrt (spec_disc a b c d)) / 2) * fst (code_dir s a b c d),
          ((a + d - s * sqrt (spec_disc a b c d)) / 2) * snd (code_dir s a b c d))"
proof -
  define r where "r = sqrt (spec_disc a b c d)"
  define t where "t = - (d - a + s * r) / (2 * c)"
  define n where "n = sqrt (t\<^sup>2 + 1)"
  define l where "l = (a + d - s * r) / 2"
  have r2: "r * r = (a - d)\<^sup>2 + 4 * b * c"
    using assms(2) by (simp add: r_def spec_disc_def)
  have s2: "s * s = 1" using assms(3) by auto
  have n: "n \<noteq> 0" using norm_pos [of t] by (simp add: n_def)
  have cd: "code_dir s a b c d = (t / n, 1 / n)"
    by (simp add: code_dir_def normalize_vec_def t_def n_def r_def)
  have e2: "c * t + d = l"
    using assms(1) by (simp add: t_def l_def field_simps)
  have "(a - l) * t * (4 * c) = (a - d)\<^sup>2 - (s * s) * (r * r)"
    using assms(1) by (simp add: t_def l_def field_simps power2_eq_square)
  also have "\<dots> = (- b) * (4 * c)" by (simp add: s2 r2)
  finally have "((a - l) * t) * (4 * c) = (- b) * (4 * c)" .
  then have "(a - l) * t = - b"
    using assms(1) mult_right_cancel [of "4 * c" "(a - l) * t" "- b"] by simp
  then have e1: "a * t + b = l * t" using assms(1) by (simp add: algebra_simps)
  have "apply_map (a, c) (b, d) (t / n, 1 / n) = ((a * t + b) / n, (c * t + d) / n)"
    by (simp add: apply_map_def add_divide_distrib)
  also have "\<dots> = (l * (t / n), l * (1 / n))" by (simp add: e1 e2)
  finally show ?thesis by (simp add: cd l_def r_def)
qed


lemma code_dir_example: "code_dir 1 1 0 1 2 = (- 1 / sqrt 2, 1 / sqrt 2)"
  by (simp add: code_dir_def normalize_vec_def spec_disc_def)

lemma spec_dir_example: "spec_dir 1 1 0 1 2 = (1 / sqrt 2, 1 / sqrt 2)"
  by (simp add: spec_dir_def normalize_vec_def spec_disc_def)

text \<open>
  Claim C3, as it is written, fails.  For the map with columns \<open>(1, 1)\<close> and
  \<open>(0, 2)\<close> the first line of the source is not the direction
  \<open>normalize [(d - a + \<surd>((a - d)\<^sup>2 + 4bc)) / (2c), 1]\<close>, and that direction is not
  even kept by the map.
\<close>

theorem eigen_line_sign_counterexample:
  "evaluate_vec zero_env (el1_vec (Num 1) (Num 0) (Num 1) (Num 2)) \<noteq> Some (spec_dir 1 1 0 1 2) \<and>
   \<not> parallel (apply_map (1, 1) (0, 2) (spec_dir 1 1 0 1 2)) (spec_dir 1 1 0 1 2)"
proof -
  have "evaluate_vec zero_env (el1_vec (Num 1) (Num 0) (Num 1) (Num 2)) = Some (code_dir 1 1 0 1 2)"
    by (rule evaluate_el1) (simp_all add: spec_disc_def)
  moreover have "- 1 / sqrt 2 \<noteq> 1 / sqrt 2" by simp
  moreover have "\<not> parallel (apply_map (1, 1) (0, 2) (1 / sqrt 2, 1 / sqrt 2)) (1 / sqrt 2, 1 / sqrt 2)"
    by (simp add: parallel_def apply_map_def)
  ultimately show ?thesis
    by (simp add: code_dir_example spec_dir_example)
qed

text \<open>
  Claim C3, amended.  For \<open>c \<noteq> 0\<close> and a radicand that is not negative, each line is
  \<open>normalize [- (d - a \<plusminus> \<surd>((a - d)\<^sup>2 + 4bc)) / (2c), 1]\<close>: the numerator is negated,
  the first line has \<open>+\<close> before the square root and the second has \<open>-\<close>, and the
  second component is \<open>1\<close> before the normalisation.
\<close>

theorem eigen_line_directions:
  assumes "evaluate env a = Some va" "evaluate env b = Some vb"
      and "evaluate env c = Some vc" "evaluate env d = Some vd"
      and "vc \<noteq> 0" "0 \<le> spec_disc va vb vc vd"
  shows "evaluate_vec env (el1_vec a b c d) =
           Some (normalize_vec (- (vd - va + sqrt (spec_disc va vb vc vd)) / (2 * vc), 1)) \<and>
         evaluate_vec env (el2_vec a b c d) =
           Some (normalize_vec (- (vd - va - sqrt (spec_disc va vb vc vd)) / (2 * vc), 1))"
  using evaluate_el1 [OF assms] evaluate_el2 [OF assms]
  by (simp add: code_dir_def)

theorem eigen_line_directions_witness:
  "evaluate_vec zero_env (el1_vec (Num 1) (Num 0) (Num 1) (Num 2)) = Some (- 1 / sqrt 2, 1 / sqrt 2) \<and>
   evaluate_vec zero_env (el2_vec (Num 1) (Num 0) (Num 1) (Num 2)) = Some (0, 1)"
  using eigen_line_directions [of zero_env "Num 1" 1 "Num 0" 0 "Num 1" 1 "Num 2" 2]
  by (simp add: normalize_vec_def spec_disc_def)

lemma code_dir_nonzero: "code_dir s a b c d \<noteq> (0, 0)"
  using norm_pos [of "- (d - a + s * sqrt (spec_disc a b c d)) / (2 * c)"]
  by (simp add: code_dir_def normalize_vec_def)

lemma parallel_scaled: "parallel (k * fst v, k * snd v) v"
  by (simp add: parallel_def)

text \<open>
  Claim C4.  For a map with \<open>c \<noteq> 0\<close> and two distinct real eigenvalues, that is a
  positive radicand, both lines have a value, a vector different from zero, and the
  map sends each of them to a scalar multiple of itself.
\<close>

theorem eigen_lines_are_invariant:
  assumes "evaluate env a = Some va" "evaluate env b = Some vb"
      and "evaluate env c = Some vc" "evaluate env d = Some vd"
      and "vc \<noteq> 0" "0 < spec_disc va vb vc vd"
  shows "\<exists>v1 v2 k1 k2.
           evaluate_vec env (el1_vec a b c d) = Some v1 \<and>
           evaluate_vec env (el2_vec a b c d) = Some v2 \<and>
           v1 \<noteq> (0, 0) \<and> v2 \<noteq> (0, 0) \<and>
           apply_map (va, vc) (vb, vd) v1 = (k1 * fst v1, k1 * snd v1) \<and>
           apply_map (va, vc) (vb, vd) v2 = (k2 * fst v2, k2 * snd v2) \<and>
           parallel (apply_map (va, vc) (vb, vd) v1) v1 \<and>
           parallel (apply_map (va, vc) (vb, vd) v2) v2"
proof -
  have nonneg: "0 \<le> spec_disc va vb vc vd" using assms(6) by simp
  let ?v1 = "code_dir 1 va vb vc vd" and ?v2 = "code_dir (- 1) va vb vc vd"
  let ?k1 = "(va + vd - 1 * sqrt (spec_disc va vb vc vd)) / 2"
  let ?k2 = "(va + vd - (- 1) * sqrt (spec_disc va vb vc vd)) / 2"
  have e1: "evaluate_vec env (el1_vec a b c d) = Some ?v1"
    by (rule evaluate_el1 [OF assms(1-5) nonneg])
  have e2: "evaluate_vec env (el2_vec a b c d) = Some ?v2"
    by (rule evaluate_el2 [OF assms(1-5) nonneg])
  have m1: "apply_map (va, vc) (vb, vd) ?v1 = (?k1 * fst ?v1, ?k1 * snd ?v1)"
    by (rule code_dir_eigen [OF assms(5) nonneg]) simp
  have m2: "apply_map (va, vc) (vb, vd) ?v2 = (?k2 * fst ?v2, ?k2 * snd ?v2)"
    by (rule code_dir_eigen [OF assms(5) nonneg]) simp
  have p1: "parallel (apply_map (va, vc) (vb, vd) ?v1) ?v1"
    unfolding m1 by (rule parallel_scaled)
  have p2: "parallel (apply_map (va, vc) (vb, vd) ?v2) ?v2"
    unfolding m2 by (rule parallel_scaled)
  show ?thesis
    using e1 e2 m1 m2 p1 p2 code_dir_nonzero [of 1 va vb vc vd] code_dir_nonzero [of "- 1" va vb vc vd]
    by blast
qed

theorem eigen_lines_are_invariant_witness:
  "\<exists>v1 v2 k1 k2.
     evaluate_vec zero_env (el1_vec (Num 1) (Num 0) (Num 1) (Num 2)) = Some v1 \<and>
     evaluate_vec zero_env (el2_vec (Num 1) (Num 0) (Num 1) (Num 2)) = Some v2 \<and>
     v1 \<noteq> (0, 0) \<and> v2 \<noteq> (0, 0) \<and>
     apply_map (1, 1) (0, 2) v1 = (k1 * fst v1, k1 * snd v1) \<and>
     apply_map (1, 1) (0, 2) v2 = (k2 * fst v2, k2 * snd v2) \<and>
     parallel (apply_map (1, 1) (0, 2) v1) v1 \<and>
     parallel (apply_map (1, 1) (0, 2) v2) v2"
  using eigen_lines_are_invariant [of zero_env "Num 1" 1 "Num 0" 0 "Num 1" 1 "Num 2" 2]
  by (simp add: spec_disc_def)

text \<open>
  Claim C9.  The source guards neither case: with a negative radicand (complex
  eigenvalues) the square root has no value, with \<open>c = 0\<close> the division has none, and
  in both cases neither line has a value.
\<close>

theorem eigen_lines_unguarded:
  assumes "evaluate env a = Some va" "evaluate env b = Some vb"
      and "evaluate env c = Some vc" "evaluate env d = Some vd"
      and "spec_disc va vb vc vd < 0 \<or> vc = 0"
  shows "evaluate_vec env (el1_vec a b c d) = None \<and> evaluate_vec env (el2_vec a b c d) = None"
  using assms evaluate_radicand [OF assms(1-4)]
  unfolding el1_vec_def el2_vec_def
  by (auto intro!: evaluate_vnormalize_none)

theorem eigen_lines_unguarded_witness:
  "spec_disc 0 (- 1) 1 0 < 0 \<and>
   evaluate_vec zero_env (el1_vec (Num 0) (Num (- 1)) (Num 1) (Num 0)) = None \<and>
   evaluate_vec zero_env (el2_vec (Num 0) (Num (- 1)) (Num 1) (Num 0)) = None \<and>
   evaluate_vec zero_env (el1_vec (Num 1) (Num 1) (Num 0) (Num 2)) = None \<and>
   evaluate_vec zero_env (el2_vec (Num 1) (Num 1) (Num 0) (Num 2)) = None"
  using eigen_lines_unguarded [of zero_env "Num 0" 0 "Num (- 1)" "- 1" "Num 1" 1 "Num 0" 0]
    eigen_lines_unguarded [of zero_env "Num 1" 1 "Num 1" 1 "Num 0" 0 "Num 2" 2]
  by (simp add: spec_disc_def)

section \<open>Properties of the hook\<close>

lemma hook_inv_mount: "hook_inv mount_state"
  by (simp add: hook_inv_def mount_state_def)

lemma hook_inv_cleanup_effect:
  assumes "hook_inv h"
  shows "hook_inv (effect f (cleanup h))"
  using assms
  by (auto simp: hook_inv_def effect_def cleanup_def nth_append nth_list_update last_conv_nth)

lemma hook_inv_effect:
  assumes "hook_inv h" "deps h = None"
  shows "hook_inv (effect f h)"
  using assms
  by (auto simp: hook_inv_def effect_def nth_append)

lemma hook_inv_unmount:
  assumes "hook_inv h"
  shows "hook_inv ((cleanup h)\<lparr>deps := None\<rparr>)"
  using assms
  by (auto simp: hook_inv_def cleanup_def nth_list_update last_conv_nth)

lemma hook_inv_resolved:
  assumes "hook_inv h"
  shows "hook_inv (step h (Resolved i b))"
  using assms
  by (auto simp: hook_inv_def Let_def nth_list_update)

lemma hook_inv_rejected:
  assumes "hook_inv h"
  shows "hook_inv (step h (Rejected i e))"
  using assms
  by (auto simp: hook_inv_def Let_def nth_list_update)


lemma hook_inv_step:
  assumes "hook_inv h"
  shows "hook_inv (step h ev)"
proof (cases ev)
  case (Render f)
  then show ?thesis
    using assms hook_inv_effect [of h f] hook_inv_cleanup_effect [of h f]
    by (simp split: option.splits)
next
  case Unmount
  then show ?thesis
    using assms hook_inv_unmount [of h] by (simp split: option.splits)
next
  case (Resolved i b)
  then show ?thesis using assms hook_inv_resolved by simp
next
  case (Rejected i e)
  then show ?thesis using assms hook_inv_rejected by simp
qed

lemma hook_inv_foldl:
  assumes "hook_inv h"
  shows "hook_inv (foldl step h evs)"
  using assms by (induction evs arbitrary: h) (simp_all add: hook_inv_step)

lemma hook_inv_run_events: "hook_inv (run_events evs)"
  unfolding run_events_def by (rule hook_inv_foldl [OF hook_inv_mount])


lemma superseded_cancelled:
  assumes "hook_inv h" "superseded h i"
  shows "i < length (runs h) \<and> cancelled (runs h ! i)"
  using assms by (auto simp: hook_inv_def superseded_def)

lemma current_not_cancelled:
  assumes "hook_inv h" "i < length (runs h)" "\<not> superseded h i"
  shows "\<not> cancelled (runs h ! i)"
proof -
  have "i = length (runs h) - 1" and "deps h \<noteq> None"
    using assms(2,3) by (auto simp: superseded_def)
  then show ?thesis
    using assms(1) by (auto simp: hook_inv_def)
qed

lemma diagram_of_newest:
  assumes "hook_inv h" "diagram h = Some b"
  shows "runs h \<noteq> [] \<and> built (last (runs h)) = Some b"
  using assms by (auto simp: hook_inv_def last_conv_nth)

lemma newest_of_deps:
  assumes "hook_inv h" "deps h = Some f"
  shows "runs h \<noteq> [] \<and> fn (last (runs h)) = f \<and> \<not> cancelled (last (runs h))"
  using assms by (auto simp: hook_inv_def last_conv_nth)

lemmas hook_eval = run_events_def mount_state_def effect_def cleanup_def superseded_def
  in_flight_def Let_def

text \<open>
  Claim C6.  After any run of events, a build that has been superseded, by a newer run
  of the effect or by an unmount, leaves the state cell as it is when it resolves; a
  diagram held by the state cell is the one the newest run resolved with; and while
  the component is mounted the newest run is the one of the current build function.
\<close>

theorem useDiagram_discards_stale_result:
  assumes "h = run_events evs"
  shows "(superseded h i \<longrightarrow> diagram (step h (Resolved i b)) = diagram h) \<and>
         (diagram h = Some b' \<longrightarrow> runs h \<noteq> [] \<and> built (last (runs h)) = Some b') \<and>
         (deps h = Some f \<longrightarrow> runs h \<noteq> [] \<and> fn (last (runs h)) = f)"
proof -
  have inv: "hook_inv h" using assms by (simp add: hook_inv_run_events)
  have "diagram (step h (Resolved i b)) = diagram h" if "superseded h i"
    using superseded_cancelled [OF inv that] by (simp add: Let_def)
  then show ?thesis
    using diagram_of_newest [OF inv] newest_of_deps [OF inv] by blast
qed

theorem useDiagram_discards_stale_result_witness:
  "superseded (run_events [Render 1, Render 2, Resolved 1 7]) 0 \<and>
   diagram (step (run_events [Render 1, Render 2, Resolved 1 7]) (Resolved 0 5)) = Some 7 \<and>
   built (last (runs (run_events [Render 1, Render 2, Resolved 1 7]))) = Some 7 \<and>
   fn (last (runs (run_events [Render 1, Render 2, Resolved 1 7]))) = 2 \<and>
   superseded (run_events [Render 1, Unmount]) 0 \<and>
   diagram (step (run_events [Render 1, Unmount]) (Resolved 0 5)) = None"
  using useDiagram_discards_stale_result [of "run_events [Render 1, Render 2, Resolved 1 7]"
      "[Render 1, Render 2, Resolved 1 7]" 0 5 7 2]
    useDiagram_discards_stale_result [of "run_events [Render 1, Unmount]"
      "[Render 1, Unmount]" 0 5 7 2]
  by (simp add: hook_eval)

text \<open>
  Claim C7, as it is written, fails.  The first build is still in flight when the build
  function changes; the second build resolves with diagram \<open>7\<close>; then the first
  build rejects.  The error is logged and the state is the diagram \<open>7\<close>, not null.
\<close>

theorem useDiagram_rejection_counterexample:
  "in_flight (run_events [Render 1, Render 2, Resolved 1 7]) 0 \<and>
   diagram (step (run_events [Render 1, Render 2, Resolved 1 7]) (Rejected 0 9)) = Some 7 \<and>
   console (step (run_events [Render 1, Render 2, Resolved 1 7]) (Rejected 0 9)) = [9]"
  by (simp add: hook_eval)

text \<open>
  Claim C7, amended.  When a build in flight rejects, the error is logged and no build
  function is called again.  When the build is the current one, not superseded, the
  state is null afterwards; when it has been superseded the state is left as it is.
\<close>

theorem useDiagram_rejection:
  assumes "h = run_events evs" "in_flight h i"
  shows "console (step h (Rejected i e)) = console h @ [e] \<and>
         map fn (runs (step h (Rejected i e))) = map fn (runs h) \<and>
         (\<not> superseded h i \<longrightarrow> diagram (step h (Rejected i e)) = None) \<and>
         (superseded h i \<longrightarrow> diagram (step h (Rejected i e)) = diagram h)"
proof -
  have inv: "hook_inv h" using assms(1) by (simp add: hook_inv_run_events)
  have fl: "i < length (runs h)" "\<not> settled (runs h ! i)"
    using assms(2) by (simp_all add: in_flight_def)
  have fns: "map fn ((runs h)[i := (runs h ! i)\<lparr>settled := True\<rparr>]) = map fn (runs h)"
    using fl(1) by (simp add: map_update list_update_same_conv)
  have a: "diagram (step h (Rejected i e)) = None" if "\<not> superseded h i"
    using current_not_cancelled [OF inv fl(1) that] fl by (simp add: Let_def)
  have b: "diagram (step h (Rejected i e)) = diagram h" if "superseded h i"
    using superseded_cancelled [OF inv that] fl by (simp add: Let_def)
  have c: "console (step h (Rejected i e)) = console h @ [e]"
    using fl by (simp add: Let_def)
  have d: "map fn (runs (step h (Rejected i e))) = map fn (runs h)"
    using fl fns by (simp add: Let_def)
  show ?thesis using a b c d by blast
qed

theorem useDiagram_rejection_witness:
  "in_flight (run_events [Render 1]) 0 \<and> \<not> superseded (run_events [Render 1]) 0 \<and>
   console (step (run_events [Render 1]) (Rejected 0 9)) = [9] \<and>
   map fn (runs (step (run_events [Render 1]) (Rejected 0 9))) = [1] \<and>
   diagram (step (run_events [Render 1]) (Rejected 0 9)) = None"
  using useDiagram_rejection [of "run_events [Render 1]" "[Render 1]" 0 9]
  by (simp add: hook_eval)

text \<open>
  Claim C10.  After any run of events, a render with a build function other than the
  one of the last effect (the first render included) leaves the state null and starts
  a fresh run for that function; and as long as the newest run has not resolved the
  state is null, so no earlier diagram is kept during a rebuild.
\<close>

theorem useDiagram_null_during_rebuild:
  assumes "h = run_events evs"
  shows "(deps h \<noteq> Some f \<longrightarrow>
            diagram (step h (Render f)) = None \<and>
            length (runs (step h (Render f))) = Suc (length (runs h)) \<and>
            last (runs (step h (Render f))) =
              \<lparr>cancelled = False, fn = f, settled = False, built = None\<rparr>) \<and>
         (runs h = [] \<or> built (last (runs h)) = None \<longrightarrow> diagram h = None)"
proof -
  have inv: "hook_inv h" using assms by (simp add: hook_inv_run_events)
  have a: "diagram (step h (Render f)) = None \<and>
           length (runs (step h (Render f))) = Suc (length (runs h)) \<and>
           last (runs (step h (Render f))) =
             \<lparr>cancelled = False, fn = f, settled = False, built = None\<rparr>"
    if "deps h \<noteq> Some f"
    using that by (auto simp: effect_def cleanup_def split: option.splits)
  have b: "diagram h = None" if "runs h = [] \<or> built (last (runs h)) = None"
  proof (cases "diagram h")
    case None
    then show ?thesis .
  next
    case (Some b')
    then show ?thesis using diagram_of_newest [OF inv Some] that by auto
  qed
  show ?thesis using a b by blast
qed

theorem useDiagram_null_during_rebuild_witness:
  "deps (run_events [Render 1, Resolved 0 7]) \<noteq> Some 2 \<and>
   diagram (run_events [Render 1, Resolved 0 7]) = Some 7 \<and>
   diagram (step (run_events [Render 1, Resolved 0 7]) (Render 2)) = None \<and>
   built (last (runs (run_events [Render 1, Resolved 0 7, Render 2, Rejected 0 9]))) = None \<and>
   diagram (run_events [Render 1, Resolved 0 7, Render 2, Rejected 0 9]) = None"
  using useDiagram_null_during_rebuild [of "run_events [Render 1, Resolved 0 7]"
      "[Render 1, Resolved 0 7]" 2]
    useDiagram_null_during_rebuild [of "run_events [Render 1, Resolved 0 7, Render 2, Rejected 0 9]"
      "[Render 1, Resolved 0 7, Render 2, Rejected 0 9]" 2]
  by (simp add: hook_eval)

section \<open>Properties of the instance graph\<close>

lemmas substance_eval = empty_substance_def mint_def assign_def Segment_def CircleRadius_def
  Circumcircle_def Label_def assert_Perpendicular_def assert_On_def assert_NotEqual_def Let_def

lemma defineSubstance_value:
  "defineSubstance =
     ([(''A'', 0), (''B'', 1), (''C'', 2), (''AB'', 9), (''BC'', 10), (''AC'', 11),
       (''AD'', 13), (''BE'', 14), (''CF'', 15), (''D'', 3), (''E'', 4), (''F'', 5), (''G'', 6)],
      \<lparr>instances = [Point, Point, Point, Point, Point, Point, Point, Circle, Circle,
                    Edge, Edge, Edge, Edge, Edge, Edge, Edge],
       Connects = [(9, 0, 1), (10, 1, 2), (11, 0, 2), (12, 6, 5), (13, 0, 3), (14, 1, 4), (15, 2, 5)],
       DrawCircleWithRadius = [(7, 6, 5)],
       DrawCircumcircle = [(8, 0, 1, 2)],
       Perpendicular = [(10, 13), (11, 14), (9, 15)],
       On = [(3, 10), (4, 11), (5, 9), (6, 13), (6, 14), (6, 15)],
       NotEqual = [],
       LabelPredicate = [9, 10, 11, 12],
       attrs = [(9, ''label'', ''a''), (10, ''label'', ''b''), (11, ''label'', ''c''),
                (12, ''label'', ''r''), (0, ''label'', ''A''), (1, ''label'', ''B''),
                (2, ''label'', ''C''), (3, ''label'', ''D''), (4, ''label'', ''E''),
                (5, ''label'', ''F''), (6, ''label'', ''G'')]\<rparr>)"
  by (simp add: defineSubstance_def substance_eval)

lemma defineSubstance_standalone_value:
  "defineSubstance_standalone =
     ([(''A'', 0), (''B'', 1), (''C'', 2), (''AB'', 7), (''BC'', 8), (''AC'', 9),
       (''AD'', 10), (''BE'', 11), (''CF'', 12), (''D'', 3), (''E'', 4), (''F'', 5), (''G'', 6)],
      \<lparr>instances = [Point, Point, Point, Point, Point, Point, Point,
                    Edge, Edge, Edge, Edge, Edge, Edge],
       Connects = [(7, 0, 1), (8, 1, 2), (9, 0, 2), (10, 0, 3), (11, 1, 4), (12, 2, 5)],
       DrawCircleWithRadius = [],
       DrawCircumcircle = [],
       Perpendicular = [(8, 10), (9, 11), (7, 12)],
       On = [(3, 8), (4, 9), (5, 7), (6, 10), (6, 11), (6, 12)],
       NotEqual = [],
       LabelPredicate = [],
       attrs = [(0, ''name'', ''A''), (1, ''name'', ''B''),
                (2, ''name'', ''C''), (3, ''name'', ''D''), (4, ''name'', ''E''),
                (5, ''name'', ''F''), (6, ''name'', ''G'')]\<rparr>)"
  by (simp add: defineSubstance_standalone_def substance_eval)

lemma defineSubstance_tangent_value:
  "defineSubstance_tangent =
     ([(''O'', 0), (''C'', 2), (''A'', 3), (''B'', 4), (''R'', 1),
       (''CA'', 6), (''CB'', 7), (''OA'', 8), (''OB'', 9), (''OR'', 10), (''circle'', 5)],
      \<lparr>instances = [Point, Point, Point, Point, Point, Circle, Edge, Edge, Edge, Edge, Edge],
       Connects = [(6, 2, 3), (7, 2, 4), (8, 0, 3), (9, 0, 4), (10, 0, 1)],
       DrawCircleWithRadius = [(5, 0, 1)],
       DrawCircumcircle = [],
       Perpendicular = [(6, 8), (7, 9)],
       On = [(3, 5), (4, 5), (1, 5)],
       NotEqual = [(3, 4)],
       LabelPredicate = [6, 7, 8, 9, 10],
       attrs = [(0, ''label'', ''O''), (2, ''label'', ''C''), (3, ''label'', ''A''),
                (4, ''label'', ''B''), (1, ''label'', ''R''), (6, ''label'', []),
                (7, ''label'', []), (8, ''label'', ''r''), (9, ''label'', ''r''),
                (10, ''label'', ''r'')]\<rparr>)"
  by (simp add: defineSubstance_tangent_def substance_eval)

text \<open>
  Claim C8, as it is written, fails.  In both geometry diagrams the point \<open>G\<close>, handle
  \<open>6\<close>, has three \<^verbatim>\<open>On\<close> facts: it lies on \<open>AD\<close>, \<open>BE\<close> and \<open>CF\<close>.
\<close>

theorem On_point_on_three_carriers_counterexample:
  "map_of (fst defineSubstance) ''G'' = Some 6 \<and>
   instances (snd defineSubstance) ! 6 = Point \<and>
   on_count (snd defineSubstance) 6 = 3 \<and>
   \<not> on_count (snd defineSubstance) 6 \<le> 1 \<and>
   \<not> on_count (snd defineSubstance_standalone) 6 \<le> 1"
  by (simp add: defineSubstance_value defineSubstance_standalone_value on_count_def)

text \<open>
  Claim C8, amended.  In every instance graph with \<^verbatim>\<open>On\<close> facts, the two geometry
  graphs and the tangent graph, each \<^verbatim>\<open>On\<close> fact relates one point to exactly one
  carrier shape and no fact is asserted twice; a point may have more than one
  \<^verbatim>\<open>On\<close> fact: \<open>G\<close> in the two geometry graphs has three, and every other point of
  the three graphs has at most one.  The lists give the number of \<^verbatim>\<open>On\<close> facts of
  the points in the order of their handles: \<open>A\<close> to \<open>G\<close> in the geometry graphs,
  and \<open>O\<close>, \<open>R\<close>, \<open>C\<close>, \<open>A\<close>, \<open>B\<close> in the tangent graph.
\<close>

theorem On_facts_of_diagrams:
  "On (snd defineSubstance) = [(3, 10), (4, 11), (5, 9), (6, 13), (6, 14), (6, 15)] \<and>
   list_all (on_fact_ok (snd defineSubstance)) (On (snd defineSubstance)) \<and>
   distinct (On (snd defineSubstance)) \<and>
   map (on_count (snd defineSubstance)) [0, 1, 2, 3, 4, 5, 6] = [0, 0, 0, 1, 1, 1, 3] \<and>
   On (snd defineSubstance_standalone) = [(3, 8), (4, 9), (5, 7), (6, 10), (6, 11), (6, 12)] \<and>
   list_all (on_fact_ok (snd defineSubstance_standalone)) (On (snd defineSubstance_standalone)) \<and>
   distinct (On (snd defineSubstance_standalone)) \<and>
   map (on_count (snd defineSubstance_standalone)) [0, 1, 2, 3, 4, 5, 6] = [0, 0, 0, 1, 1, 1, 3] \<and>
   On (snd defineSubstance_tangent) = [(3, 5), (4, 5), (1, 5)] \<and>
   list_all (on_fact_ok (snd defineSubstance_tangent)) (On (snd defineSubstance_tangent)) \<and>
   distinct (On (snd defineSubstance_tangent)) \<and>
   map (on_count (snd defineSubstance_tangent)) [0, 1, 2, 3, 4] = [0, 1, 0, 1, 1]"
  by (simp add: defineSubstance_value defineSubstance_standalone_value
      defineSubstance_tangent_value on_count_def on_fact_ok_def)

end
